theory Spec2Isabelle
  imports Main "HOL-Library.AList" "HOL-Library.Char_ord" "HOL-Library.List_Lexorder"
    "HOL-Library.Product_Lexorder" "HOL-Library.Multiset"
begin

section \<open>BigQuery usage extraction: data model\<close>

text \<open>
  The embedding follows \<^verbatim>\<open>datahub/ingestion/source/bigquery_v2/usage.py\<close>.
  A \<^verbatim>\<open>BigQueryTableRef\<close> is represented by its string name (\<^verbatim>\<open>str(resource)\<close>),
  a \<^verbatim>\<open>datetime\<close> by an integer instant. The event classes are declared in
  \<^verbatim>\<open>bigquery_audit\<close>; only the fields that \<^verbatim>\<open>usage.py\<close> reads in the functions modelled
  here are kept. Strings are lists of characters, ordered lexicographically character by
  character, as SQLite's binary collation orders text.
\<close>

type_synonym BigQueryTableRef = string
type_synonym datetime = int

record ReadEvent =
  timestamp :: datetime
  resource :: BigQueryTableRef
  fieldsRead :: "string list"
  readReason :: "string option"
  jobName :: "string option"
  actor_email :: string

record QueryEvent =
  q_timestamp :: datetime
  q_actor_email :: string
  query :: string
  statementType :: string
  job_name :: "string option"
  destinationTable :: "BigQueryTableRef option"

record AuditEvent =
  read_event :: "ReadEvent option"
  query_event :: "QueryEvent option"

datatype OperationTypeClass =
  INSERT | UPDATE | DELETE | CREATE | ALTER | DROP | CUSTOM | UNKNOWN

text \<open>The table \<^verbatim>\<open>OPERATION_STATEMENT_TYPES\<close>, entry by entry.\<close>

definition OPERATION_STATEMENT_TYPES :: "(string \<times> OperationTypeClass) list" where
  "OPERATION_STATEMENT_TYPES =
    [(''INSERT'', INSERT),
     (''UPDATE'', UPDATE),
     (''DELETE'', DELETE),
     (''MERGE'', UPDATE),
     (''CREATE'', CREATE),
     (''CREATE_TABLE_AS_SELECT'', CREATE),
     (''CREATE_EXTERNAL_TABLE'', CREATE),
     (''CREATE_SNAPSHOT_TABLE'', CREATE),
     (''CREATE_VIEW'', CREATE),
     (''CREATE_MATERIALIZED_VIEW'', CREATE),
     (''CREATE_SCHEMA'', CREATE),
     (''DROP_TABLE'', DROP),
     (''DROP_EXTERNAL_TABLE'', DROP),
     (''DROP_SNAPSHOT_TABLE'', DROP),
     (''DROP_VIEW'', DROP),
     (''DROP_MATERIALIZED_VIEW'', DROP),
     (''DROP_SCHEMA'', DROP),
     (''ALTER_TABLE'', ALTER),
     (''ALTER_VIEW'', ALTER),
     (''ALTER_MATERIALIZED_VIEW'', ALTER),
     (''ALTER_SCHEMA'', ALTER)]"


record OperationalDataMeta =
  statement_type :: OperationTypeClass
  last_updated_timestamp :: int
  meta_actor_email :: string
  custom_type :: "string option"

text \<open>
  \<^verbatim>\<open>int(ts.timestamp() * 1000)\<close>: instants are counted in microseconds, and \<^verbatim>\<open>int\<close>
  truncates towards zero. The rounding of the intermediate float is not modelled.
\<close>

definition timestamp_millis :: "datetime \<Rightarrow> int" where
  "timestamp_millis t = sgn t * (\<bar>t\<bar> div 1000)"

text \<open>Python truthiness of an \<^verbatim>\<open>Optional[str]\<close>: \<^verbatim>\<open>None\<close> and the empty string are false.\<close>

definition truthy_str :: "string option \<Rightarrow> bool" where
  "truthy_str s = (case s of None \<Rightarrow> False | Some v \<Rightarrow> v \<noteq> [])"

section \<open>The operational deriver\<close>

text \<open>
  \<^verbatim>\<open>_get_destination_table\<close>: the first branch needs the read event to be absent; with a
  read event the second branch answers. An event object is always true in Python.
\<close>

definition get_destination_table :: "AuditEvent \<Rightarrow> BigQueryTableRef option" where
  "get_destination_table event =
    (if read_event event = None
        \<and> (case query_event event of None \<Rightarrow> False | Some q \<Rightarrow> destinationTable q \<noteq> None)
     then (case query_event event of None \<Rightarrow> None | Some q \<Rightarrow> destinationTable q)
     else (case read_event event of
             Some r \<Rightarrow> Some (resource r)
           | None \<Rightarrow> None))"

text \<open>
  \<^verbatim>\<open>_extract_operational_meta\<close>. The function also counts the statement type in
  \<^verbatim>\<open>report.operation_types_stat\<close>; the dictionary is passed in and returned.
\<close>

definition extract_operational_meta ::
  "AuditEvent \<Rightarrow> (string \<rightharpoonup> nat) \<Rightarrow> OperationalDataMeta option \<times> (string \<rightharpoonup> nat)" where
  "extract_operational_meta event operation_types_stat =
    (case query_event event of
       None \<Rightarrow>
         (case read_event event of
            Some r \<Rightarrow>
              (Some \<lparr>statement_type = CUSTOM,
                     last_updated_timestamp = timestamp_millis (timestamp r),
                     meta_actor_email = actor_email r,
                     custom_type = Some ''CUSTOM_READ''\<rparr>,
               operation_types_stat)
          | None \<Rightarrow> (None, operation_types_stat))
     | Some q \<Rightarrow>
         (let (stype, ctype) =
                (if statementType q \<in> set (map fst OPERATION_STATEMENT_TYPES)
                    \<and> read_event event = None
                 then (the (map_of OPERATION_STATEMENT_TYPES (statementType q)), None)
                 else (CUSTOM, Some (statementType q)));
              stat = operation_types_stat(statementType q \<mapsto>
                       (case operation_types_stat (statementType q) of
                          None \<Rightarrow> 0 | Some n \<Rightarrow> n) + 1)
          in (Some \<lparr>statement_type = stype,
                    last_updated_timestamp = timestamp_millis (q_timestamp q),
                    meta_actor_email = q_actor_email q,
                    custom_type = ctype\<rparr>,
              stat)))"

section \<open>The event store and the correlator\<close>

text \<open>
  What the module takes from elsewhere is a parameter of the model: the MD5 hex digest of
  the encoded text, the stream of keys that \<^verbatim>\<open>uuid.uuid4()\<close> returns (by number of the
  call), \<^verbatim>\<open>MAX_QUERY_LENGTH\<close> (imported as \<^verbatim>\<open>TOTAL_BUDGET_FOR_QUERY_LIST\<close>),
  \<^verbatim>\<open>BigQueryTableRef.is_temporary_table\<close>, \<^verbatim>\<open>get_time_bucket\<close> at the configured
  bucket duration, and which assignments into a table raise (by number of the
  assignment). The tables are \<^verbatim>\<open>FileBackedDict\<close>s, which keep written entries in a cache
  and write them out later; that class is not part of the module, so when an assignment
  raises is left to the parameter.
\<close>

record env =
  md5_hexdigest :: "string \<Rightarrow> string"
  uuid4 :: "nat \<Rightarrow> string"
  MAX_QUERY_LENGTH :: nat
  is_temporary_table :: "BigQueryTableRef \<Rightarrow> string list \<Rightarrow> bool"
  get_time_bucket :: "datetime \<Rightarrow> datetime"
  write_fails :: "nat \<Rightarrow> bool"

record config =
  start_time :: datetime
  end_time :: datetime
  temp_table_dataset_prefix :: string
  top_n_queries :: int
  include_top_n_queries :: bool

datatype error = StoreWriteError | KeyError string

text \<open>
  The state threaded through a run: the four \<^verbatim>\<open>FileBackedDict\<close> tables of
  \<^verbatim>\<open>BigQueryUsageState\<close> (dictionaries, kept as association lists with one entry per
  key so that the queries can iterate over them), the extractor's \<^verbatim>\<open>uuid_to_query\<close>,
  the counters of the report that the modelled functions touch, and the numbers of
  \<^verbatim>\<open>uuid4\<close> calls and table assignments made so far.
\<close>

record state =
  read_events :: "(string \<times> ReadEvent) list"
  query_events :: "(string \<times> QueryEvent) list"
  column_accesses :: "(string \<times> string \<times> string) list"
  queries :: "(string \<times> string) list"
  uuid_to_query :: "(string \<times> string) list"
  num_usage_resources_dropped :: nat
  dropped :: "string list"
  num_usage_query_hash_collisions :: nat
  usage_error_count :: "string \<Rightarrow> nat"
  warnings :: "(string \<times> error) list"
  num_usage_workunits_emitted :: nat
  uuid_calls :: nat
  store_writes :: nat

definition initial_state :: state where
  "initial_state =
    \<lparr>read_events = [], query_events = [], column_accesses = [], queries = [],
     uuid_to_query = [], num_usage_resources_dropped = 0, dropped = [],
     num_usage_query_hash_collisions = 0, usage_error_count = (\<lambda>_. 0), warnings = [],
     num_usage_workunits_emitted = 0, uuid_calls = 0, store_writes = 0\<rparr>"

text \<open>
  \<^verbatim>\<open>_report_error(label, e)\<close> with no group: counts the label and reports a warning
  under \<^verbatim>\<open>"usage-" + label\<close>.
\<close>

definition report_error :: "string \<Rightarrow> error \<Rightarrow> state \<Rightarrow> state" where
  "report_error label e st =
    st\<lparr>usage_error_count := (usage_error_count st)(label := usage_error_count st label + 1),
       warnings := warnings st @ [(''usage-'' @ label, e)]\<rparr>"

text \<open>
  The loop \<^verbatim>\<open>for field_read in event.read_event.fieldsRead\<close> of \<^verbatim>\<open>_store_usage_event\<close>,
  ending in its \<^verbatim>\<open>return True\<close>. An assignment that raises ends the step; the state reached by then
  stays as it is.
\<close>

fun store_column_accesses ::
  "env \<Rightarrow> string \<Rightarrow> string list \<Rightarrow> state \<Rightarrow> (error + bool) \<times> state" where
  "store_column_accesses E key [] st = (Inr True, st)"
| "store_column_accesses E key (field_read # rest) st =
    (let k = uuid4 E (uuid_calls st);
         st1 = st\<lparr>uuid_calls := Suc (uuid_calls st)\<rparr>;
         st2 = st1\<lparr>store_writes := Suc (store_writes st1)\<rparr>
     in if write_fails E (store_writes st1) then (Inl StoreWriteError, st2)
        else store_column_accesses E key rest
               (st2\<lparr>column_accesses :=
                      AList.update k (key, field_read) (column_accesses st2)\<rparr>))"

text \<open>
  \<^verbatim>\<open>_store_usage_event\<close>. The result is the returned flag or the exception raised,
  with the state as the call left it. The stored query event carries the reference that
  the source assigns to \<^verbatim>\<open>event.query_event.query\<close>.
\<close>

definition store_usage_event ::
  "env \<Rightarrow> config \<Rightarrow> string list \<Rightarrow> AuditEvent \<Rightarrow> state \<Rightarrow> (error + bool) \<times> state" where
  "store_usage_event E cfg table_refs event st =
    (if (case read_event event of
           None \<Rightarrow> False
         | Some r \<Rightarrow> start_time cfg \<le> timestamp r \<and> timestamp r < end_time cfg)
     then
       (let r = the (read_event event) in
        if resource r \<notin> set table_refs
        then (Inr False,
              st\<lparr>num_usage_resources_dropped := num_usage_resources_dropped st + 1,
                 dropped := dropped st @ [resource r]\<rparr>)
        else if is_temporary_table E (resource r) [temp_table_dataset_prefix cfg]
        then (Inr False, st\<lparr>dropped := dropped st @ [resource r]\<rparr>)
        else
          (let key = uuid4 E (uuid_calls st);
               st1 = st\<lparr>uuid_calls := Suc (uuid_calls st)\<rparr>;
               st2 = st1\<lparr>store_writes := Suc (store_writes st1)\<rparr>
           in if write_fails E (store_writes st1) then (Inl StoreWriteError, st2)
              else store_column_accesses E key (fieldsRead r)
                     (st2\<lparr>read_events := AList.update key r (read_events st2)\<rparr>)))
     else if (case query_event event of None \<Rightarrow> False | Some q \<Rightarrow> truthy_str (job_name q))
     then
       (let q = the (query_event event);
            qtext = take (MAX_QUERY_LENGTH E) (query q);
            query_hash = md5_hexdigest E qtext;
            (ref, st3) =
              (if (case map_of (queries st) query_hash of None \<Rightarrow> qtext | Some t \<Rightarrow> t)
                    \<noteq> qtext
               then
                 (let key = uuid4 E (uuid_calls st)
                  in (Inr key,
                      st\<lparr>uuid_calls := Suc (uuid_calls st),
                         uuid_to_query := AList.update key qtext (uuid_to_query st),
                         num_usage_query_hash_collisions :=
                           num_usage_query_hash_collisions st + 1\<rparr>))
               else
                 (let st1 = st\<lparr>store_writes := Suc (store_writes st)\<rparr>
                  in if write_fails E (store_writes st) then (Inl StoreWriteError, st1)
                     else (Inr query_hash,
                           st1\<lparr>queries := AList.update query_hash qtext (queries st1)\<rparr>)))
        in case ref of
             Inl e \<Rightarrow> (Inl e, st3)
           | Inr reference \<Rightarrow>
               (let st4 = st3\<lparr>store_writes := Suc (store_writes st3)\<rparr>
                in if write_fails E (store_writes st3) then (Inl StoreWriteError, st4)
                   else (Inr True,
                         st4\<lparr>query_events :=
                                AList.update (the (job_name q)) (q\<lparr>query := reference\<rparr>)
                                  (query_events st4)\<rparr>)))
     else (Inr False, st))"

text \<open>
  \<^verbatim>\<open>_ingest_events\<close>: every exception of the store step is caught inside the loop and
  reported under the label \<^verbatim>\<open>store-event\<close>; the loop goes on with the next event.
  The result is \<^verbatim>\<open>num_aggregated\<close> (which the source only logs) and the state.
\<close>

fun ingest_events ::
  "env \<Rightarrow> config \<Rightarrow> string list \<Rightarrow> AuditEvent list \<Rightarrow> nat \<Rightarrow> state \<Rightarrow> nat \<times> state" where
  "ingest_events E cfg table_refs [] num_aggregated st = (num_aggregated, st)"
| "ingest_events E cfg table_refs (audit_event # rest) num_aggregated st =
    (case store_usage_event E cfg table_refs audit_event st of
       (Inr b, st') \<Rightarrow>
         ingest_events E cfg table_refs rest (num_aggregated + (if b then 1 else 0)) st'
     | (Inl e, st') \<Rightarrow>
         ingest_events E cfg table_refs rest num_aggregated (report_error ''store-event'' e st'))"

section \<open>Queries over the store\<close>




text \<open>\<^verbatim>\<open>GROUP BY\<close>: one group per distinct key, the rows of a group in their order.\<close>

definition group_by :: "('r \<Rightarrow> 'k) \<Rightarrow> 'r list \<Rightarrow> ('k \<times> 'r list) list" where
  "group_by key rows = map (\<lambda>k. (k, filter (\<lambda>r. key r = k) rows)) (remdups (map key rows))"

text \<open>
  \<^verbatim>\<open>ROW_NUMBER() OVER (PARTITION BY part ORDER BY ord)\<close>: the rows of each partition,
  sorted, are numbered from 1.
\<close>

definition row_number :: "('r \<Rightarrow> 'p) \<Rightarrow> ('r \<Rightarrow> 'o::linorder) \<Rightarrow> 'r list \<Rightarrow> ('r \<times> nat) list" where
  "row_number part ord rows =
    concat (map (\<lambda>(p, rs). zip (sort_key ord rs) [1 ..< Suc (length rs)]) (group_by part rows))"

text \<open>\<^verbatim>\<open>read_events r INNER JOIN query_events q ON r.name = q.key\<close>.\<close>

definition read_join_query ::
  "state \<Rightarrow> ((string \<times> ReadEvent) \<times> (string \<times> QueryEvent)) list" where
  "read_join_query st =
    concat (map (\<lambda>r. map (\<lambda>q. (r, q))
                        (filter (\<lambda>q. jobName (snd r) = Some (fst q)) (query_events st)))
              (read_events st))"

text \<open>\<^verbatim>\<open>read_events r INNER JOIN column_accesses c ON r.key = c.read_event\<close>.\<close>

definition read_join_column ::
  "state \<Rightarrow> ((string \<times> ReadEvent) \<times> (string \<times> string \<times> string)) list" where
  "read_join_column st =
    concat (map (\<lambda>r. map (\<lambda>c. (r, c))
                        (filter (\<lambda>c. fst (snd c) = fst r) (column_accesses st)))
              (read_events st))"

type_synonym bucket = "datetime \<times> string"

definition bucket_of :: "env \<Rightarrow> string \<times> ReadEvent \<Rightarrow> bucket" where
  "bucket_of E r = (get_time_bucket E (timestamp (snd r)), resource (snd r))"

text \<open>Subquery \<^verbatim>\<open>a\<close>: the joined rows counted per (timestamp, resource).\<close>

definition query_counts :: "env \<Rightarrow> state \<Rightarrow> (bucket \<times> nat) list" where
  "query_counts E st =
    map (\<lambda>(b, rows). (b, length rows)) (group_by (\<lambda>(r, q). bucket_of E r) (read_join_query st))"

text \<open>
  The inner select of subquery \<^verbatim>\<open>b\<close>: rows (timestamp, resource, query, query_count, rank)
  of the join grouped by timestamp, resource and query; the rank is the row number in the
  partition by timestamp, resource and query, as the source writes it; the rows are ordered
  by timestamp, resource, count descending and query.
\<close>

definition ranked_queries :: "env \<Rightarrow> state \<Rightarrow> (((bucket \<times> string) \<times> nat) \<times> nat) list" where
  "ranked_queries E st =
    sort_key (\<lambda>(((b, qry), n), rank). (b, - int n, qry))
      (row_number (\<lambda>((b, qry), n). (b, qry)) (\<lambda>((b, qry), n). (- int n, qry))
        (map (\<lambda>(k, rows). (k, length rows))
          (group_by (\<lambda>(r, q). (bucket_of E r, query (snd q))) (read_join_query st))))"

text \<open>
  Subquery \<^verbatim>\<open>b\<close>: \<^verbatim>\<open>WHERE rank <= top_n\<close>, then the (query, query_count) pairs collected
  per (timestamp, resource).
\<close>

definition query_freqs :: "env \<Rightarrow> int \<Rightarrow> state \<Rightarrow> (bucket \<times> (string \<times> nat) list) list" where
  "query_freqs E top_n st =
    map (\<lambda>(b, rows). (b, map (\<lambda>(((b', qry), n), rank). (qry, n)) rows))
      (group_by (\<lambda>(((b, qry), n), rank). b)
        (filter (\<lambda>(((b, qry), n), rank). int rank \<le> top_n) (ranked_queries E st)))"

text \<open>Subquery \<^verbatim>\<open>c\<close>: reads counted per (timestamp, resource, user).\<close>

definition user_freqs :: "env \<Rightarrow> state \<Rightarrow> (bucket \<times> (string \<times> nat) list) list" where
  "user_freqs E st =
    map (\<lambda>(b, rows). (b, map (\<lambda>((b', u), n). (u, n)) rows))
      (group_by (\<lambda>((b, u), n). b)
        (sort_key (\<lambda>((b, u), n). (b, - int n, u))
          (map (\<lambda>(k, rows). (k, length rows))
            (group_by (\<lambda>r. (bucket_of E r, actor_email (snd r))) (read_events st)))))"

text \<open>Subquery \<^verbatim>\<open>d\<close>: column accesses counted per (timestamp, resource, field).\<close>

definition column_freqs :: "env \<Rightarrow> state \<Rightarrow> (bucket \<times> (string \<times> nat) list) list" where
  "column_freqs E st =
    map (\<lambda>(b, rows). (b, map (\<lambda>((b', f), n). (f, n)) rows))
      (group_by (\<lambda>((b, f), n). b)
        (sort_key (\<lambda>((b, f), n). (b, - int n, f))
          (map (\<lambda>(k, rows). (k, length rows))
            (group_by (\<lambda>(r, c). (bucket_of E r, snd (snd c))) (read_join_column st)))))"

record UsageStatistic =
  us_timestamp :: datetime
  us_resource :: string
  query_count :: nat
  query_freq :: "(string \<times> nat) list"
  user_freq :: "(string \<times> nat) list"
  column_freq :: "(string \<times> nat) list"

text \<open>A left-joined aggregate: \<^verbatim>\<open>json.loads(row[...] or "[]")\<close> reads a missing one as empty.\<close>

definition freq_of :: "(bucket \<times> (string \<times> nat) list) list \<Rightarrow> bucket \<Rightarrow> (string \<times> nat) list" where
  "freq_of freqs b = (case map_of freqs b of None \<Rightarrow> [] | Some l \<Rightarrow> l)"

text \<open>
  \<^verbatim>\<open>usage_statistics(top_n)\<close>: subquery \<^verbatim>\<open>a\<close> left-joined with \<^verbatim>\<open>b\<close>, \<^verbatim>\<open>c\<close> and \<^verbatim>\<open>d\<close> on
  (timestamp, resource), ordered by timestamp and resource.
\<close>

definition usage_statistics :: "env \<Rightarrow> int \<Rightarrow> state \<Rightarrow> UsageStatistic list" where
  "usage_statistics E top_n st =
    map (\<lambda>(b, n).
          \<lparr>us_timestamp = fst b, us_resource = snd b, query_count = n,
           query_freq = freq_of (query_freqs E top_n st) b,
           user_freq = freq_of (user_freqs E st) b,
           column_freq = freq_of (column_freqs E st) b\<rparr>)
      (sort_key fst (query_counts E st))"

section \<open>Emission of usage records\<close>

text \<open>
  The list comprehension of \<^verbatim>\<open>_generate_usage_workunits\<close>. Python evaluates the
  arguments of \<^verbatim>\<open>uuid_to_query.get(query_hash, usage_state.queries[query_hash])\<close> before the
  call, so the table is indexed first, and indexing a \<^verbatim>\<open>FileBackedDict\<close> at a key it does
  not hold raises \<^verbatim>\<open>KeyError\<close>.
\<close>

fun resolve_query_freq :: "state \<Rightarrow> (string \<times> nat) list \<Rightarrow> error + (string \<times> nat) list" where
  "resolve_query_freq st [] = Inr []"
| "resolve_query_freq st ((query_hash, n) # rest) =
    (case map_of (queries st) query_hash of
       None \<Rightarrow> Inl (KeyError query_hash)
     | Some stored \<Rightarrow>
         (case resolve_query_freq st rest of
            Inl e \<Rightarrow> Inl e
          | Inr resolved \<Rightarrow>
              Inr ((case map_of (uuid_to_query st) query_hash of
                      None \<Rightarrow> stored
                    | Some t \<Rightarrow> t, n) # resolved)))"

text \<open>
  The work unit that \<^verbatim>\<open>make_usage_workunit\<close> builds is the downstream sink's; it is
  represented by the statistics handed to it.
\<close>

type_synonym MetadataWorkUnit = UsageStatistic

text \<open>
  The loop of \<^verbatim>\<open>_generate_usage_workunits\<close> over the entries: an exception raised for an
  entry is caught inside the loop and reported under \<^verbatim>\<open>statistics-workunit\<close>.
\<close>

fun emit_usage_workunits :: "UsageStatistic list \<Rightarrow> state \<Rightarrow> MetadataWorkUnit list \<times> state" where
  "emit_usage_workunits [] st = ([], st)"
| "emit_usage_workunits (entry # rest) st =
    (case resolve_query_freq st (query_freq entry) of
       Inl e \<Rightarrow> emit_usage_workunits rest (report_error ''statistics-workunit'' e st)
     | Inr resolved \<Rightarrow>
         (let (wus, st') =
                emit_usage_workunits rest
                  (st\<lparr>num_usage_workunits_emitted := num_usage_workunits_emitted st + 1\<rparr>)
          in (entry\<lparr>query_freq := resolved\<rparr> # wus, st')))"

definition generate_usage_workunits ::
  "env \<Rightarrow> config \<Rightarrow> state \<Rightarrow> MetadataWorkUnit list \<times> state" where
  "generate_usage_workunits E cfg st =
    (let top_n = (if include_top_n_queries cfg then top_n_queries cfg else 0)
     in emit_usage_workunits (usage_statistics E top_n st) st)"

section \<open>Concrete runs\<close>

text \<open>
  The inputs at which the theorems below are evaluated. The digest is MD5 on the texts
  that occur (the two 72-character texts are a published MD5 collision), the key stream
  stands for \<^verbatim>\<open>uuid4\<close>, and texts are cut at 80 characters.
\<close>

definition collision_text_A :: string where
  "collision_text_A =
    ''TEXTCOLLBYfGiJUETHQ4hAcKSMd5zYpgqf1YRDhkmxHkhPWptrkoyz28wnI9V0aHeAuaKnak''"

definition collision_text_B :: string where
  "collision_text_B =
    ''TEXTCOLLBYfGiJUETHQ4hEcKSMd5zYpgqf1YRDhkmxHkhPWptrkoyz28wnI9V0aHeAuaKnak''"

definition long_prefix :: string where
  "long_prefix =
    ''SELECT c1, c2, c3, c4, c5, c6, c7, c8 FROM proj.ds.t1 WHERE c1 > 0 AND c2 = 1000''"

definition known_md5 :: "(string \<times> string) list" where
  "known_md5 =
    [(''SELECT 1'', ''b1698e52a0f16203489454196a0c6307''),
     (''SELECT 2'', ''fc1c7a0bdce312b20bc3780dd6d41aaa''),
     (''SELECT 3'', ''122e5d851c9285ac41c5296a48e4c50d''),
     (''INSERT INTO t2 SELECT c1 FROM t1'', ''24e496299ad11718a36a223407231e9e''),
     (collision_text_A, ''faad49866e9498fc1719f5289e7a0269''),
     (collision_text_B, ''faad49866e9498fc1719f5289e7a0269''),
     (long_prefix, ''b0cb64c0805f03e620fb767e53d125b3'')]"

definition example_env :: env where
  "example_env =
    \<lparr>md5_hexdigest = (\<lambda>t. case map_of known_md5 t of None \<Rightarrow> [] | Some d \<Rightarrow> d),
     uuid4 = (\<lambda>n. ''uuid-'' @ replicate n (CHR ''i'')),
     MAX_QUERY_LENGTH = 80,
     is_temporary_table = (\<lambda>r prefixes. False),
     get_time_bucket = (\<lambda>t. t div 3600 * 3600),
     write_fails = (\<lambda>n. False)\<rparr>"

definition example_config :: config where
  "example_config =
    \<lparr>start_time = 0, end_time = 86400, temp_table_dataset_prefix = ''_'',
     top_n_queries = 2, include_top_n_queries = True\<rparr>"

definition example_read :: "string \<Rightarrow> string \<Rightarrow> ReadEvent" where
  "example_read res job =
    \<lparr>timestamp = 4000, resource = res, fieldsRead = [''c1''], readReason = Some ''JOB'',
     jobName = Some job, actor_email = ''a@x.com''\<rparr>"

definition example_query :: "string \<Rightarrow> string \<Rightarrow> string \<Rightarrow> QueryEvent" where
  "example_query job text stype =
    \<lparr>q_timestamp = 4000, q_actor_email = ''a@x.com'', query = text, statementType = stype,
     job_name = Some job, destinationTable = None\<rparr>"

text \<open>\<^verbatim>\<open>AuditEvent.create\<close> wraps one event.\<close>

definition read_audit :: "ReadEvent \<Rightarrow> AuditEvent" where
  "read_audit r = \<lparr>read_event = Some r, query_event = None\<rparr>"

definition query_audit :: "QueryEvent \<Rightarrow> AuditEvent" where
  "query_audit q = \<lparr>read_event = None, query_event = Some q\<rparr>"

text \<open>Three queries read 5, 5 and 3 times on one table in one bucket.\<close>

definition top_n_events :: "AuditEvent list" where
  "top_n_events =
    [query_audit (example_query ''j1'' ''SELECT 1'' ''SELECT''),
     query_audit (example_query ''j2'' ''SELECT 2'' ''SELECT''),
     query_audit (example_query ''j3'' ''SELECT 3'' ''SELECT'')]
    @ replicate 5 (read_audit (example_read ''p.d.t1'' ''j1''))
    @ replicate 5 (read_audit (example_read ''p.d.t1'' ''j2''))
    @ replicate 3 (read_audit (example_read ''p.d.t1'' ''j3''))"

definition top_n_store :: state where
  "top_n_store = initial_state
    \<lparr>read_events :=
       map (\<lambda>(n, j). (uuid4 example_env n, example_read ''p.d.t1'' j))
         [(0, ''j1''), (2, ''j1''), (4, ''j1''), (6, ''j1''), (8, ''j1''),
          (10, ''j2''), (12, ''j2''), (14, ''j2''), (16, ''j2''), (18, ''j2''),
          (20, ''j3''), (22, ''j3''), (24, ''j3'')],
     query_events :=
       [(''j1'', example_query ''j1'' ''b1698e52a0f16203489454196a0c6307'' ''SELECT''),
        (''j2'', example_query ''j2'' ''fc1c7a0bdce312b20bc3780dd6d41aaa'' ''SELECT''),
        (''j3'', example_query ''j3'' ''122e5d851c9285ac41c5296a48e4c50d'' ''SELECT'')],
     column_accesses :=
       map (\<lambda>n. (uuid4 example_env (Suc n), uuid4 example_env n, ''c1''))
         [0, 2, 4, 6, 8, 10, 12, 14, 16, 18, 20, 22, 24],
     queries :=
       [(''b1698e52a0f16203489454196a0c6307'', ''SELECT 1''),
        (''fc1c7a0bdce312b20bc3780dd6d41aaa'', ''SELECT 2''),
        (''122e5d851c9285ac41c5296a48e4c50d'', ''SELECT 3'')],
     uuid_calls := 26, store_writes := 32\<rparr>"

text \<open>Two queries whose texts collide under MD5, each read once, on two tables.\<close>

definition collision_events :: "AuditEvent list" where
  "collision_events =
    [query_audit (example_query ''j1'' collision_text_A ''SELECT''),
     query_audit (example_query ''j2'' collision_text_B ''SELECT''),
     read_audit (example_read ''p.d.t1'' ''j1''),
     read_audit (example_read ''p.d.t2'' ''j2'')]"

definition collision_store :: state where
  "collision_store = initial_state
    \<lparr>read_events :=
       [(''uuid-i'', example_read ''p.d.t1'' ''j1''), (''uuid-iii'', example_read ''p.d.t2'' ''j2'')],
     query_events :=
       [(''j1'', example_query ''j1'' ''faad49866e9498fc1719f5289e7a0269'' ''SELECT''),
        (''j2'', example_query ''j2'' ''uuid-'' ''SELECT'')],
     column_accesses :=
       [(''uuid-ii'', ''uuid-i'', ''c1''), (''uuid-iiii'', ''uuid-iii'', ''c1'')],
     queries := [(''faad49866e9498fc1719f5289e7a0269'', collision_text_A)],
     uuid_to_query := [(''uuid-'', collision_text_B)],
     num_usage_query_hash_collisions := 1,
     uuid_calls := 5, store_writes := 7\<rparr>"

text \<open>
  A store whose query event \<^verbatim>\<open>j0\<close> refers to a text that neither the table of texts nor
  the surrogate map holds.
\<close>

definition dangling_store :: state where
  "dangling_store = initial_state
    \<lparr>read_events :=
       [(''uuid-'', example_read ''p.d.t0'' ''j0''), (''uuid-ii'', example_read ''p.d.t1'' ''j1'')],
     query_events :=
       [(''j0'', example_query ''j0'' ''00000000000000000000000000000000'' ''SELECT''),
        (''j1'', example_query ''j1'' ''b1698e52a0f16203489454196a0c6307'' ''SELECT'')],
     column_accesses := [(''uuid-i'', ''uuid-'', ''c1''), (''uuid-iii'', ''uuid-ii'', ''c1'')],
     queries := [(''b1698e52a0f16203489454196a0c6307'', ''SELECT 1'')],
     uuid_calls := 4, store_writes := 6\<rparr>"

text \<open>A read and the \<^verbatim>\<open>INSERT\<close> query of its job, which declares a destination table.\<close>

definition insert_query :: QueryEvent where
  "insert_query =
    (example_query ''j1'' ''INSERT INTO t2 SELECT c1 FROM t1'' ''INSERT'')
      \<lparr>destinationTable := Some ''p.d.t2''\<rparr>"

definition paired_insert_event :: AuditEvent where
  "paired_insert_event =
    \<lparr>read_event = Some (example_read ''p.d.t1'' ''j1''), query_event = Some insert_query\<rparr>"



text \<open>
  Two queries whose texts agree on their first 80 characters and differ after them, and the
  stores after the first and after both.
\<close>

definition long_query_1 :: QueryEvent where
  "long_query_1 = example_query ''j1'' (long_prefix @ '' AND c3 < 5'') ''SELECT''"

definition long_query_2 :: QueryEvent where
  "long_query_2 = example_query ''j2'' (long_prefix @ '' AND c3 < 7'') ''SELECT''"

definition long_store_1 :: state where
  "long_store_1 = initial_state
    \<lparr>query_events := [(''j1'', long_query_1\<lparr>query := ''b0cb64c0805f03e620fb767e53d125b3''\<rparr>)],
     queries := [(''b0cb64c0805f03e620fb767e53d125b3'', long_prefix)],
     store_writes := 2\<rparr>"

definition long_store_2 :: state where
  "long_store_2 = initial_state
    \<lparr>query_events :=
       [(''j1'', long_query_1\<lparr>query := ''b0cb64c0805f03e620fb767e53d125b3''\<rparr>),
        (''j2'', long_query_2\<lparr>query := ''b0cb64c0805f03e620fb767e53d125b3''\<rparr>)],
     queries := [(''b0cb64c0805f03e620fb767e53d125b3'', long_prefix)],
     store_writes := 4\<rparr>"

text \<open>
  Texts cut at 72 characters: a query with the first colliding text, then two queries
  whose texts agree on their first 72 characters, the second colliding text, and differ
  after them; and the store that ingesting the three leaves.
\<close>

definition short_env :: env where
  "short_env = example_env\<lparr>MAX_QUERY_LENGTH := 72\<rparr>"

definition colliding_query_0 :: QueryEvent where
  "colliding_query_0 = example_query ''j0'' collision_text_A ''SELECT''"

definition colliding_query_1 :: QueryEvent where
  "colliding_query_1 = example_query ''j1'' (collision_text_B @ '' -- 1'') ''SELECT''"

definition colliding_query_2 :: QueryEvent where
  "colliding_query_2 = example_query ''j2'' (collision_text_B @ '' -- 2'') ''SELECT''"

definition prefix_collision_store :: state where
  "prefix_collision_store = initial_state
    \<lparr>query_events :=
       [(''j0'', colliding_query_0\<lparr>query := ''faad49866e9498fc1719f5289e7a0269''\<rparr>),
        (''j1'', colliding_query_1\<lparr>query := ''uuid-''\<rparr>),
        (''j2'', colliding_query_2\<lparr>query := ''uuid-i''\<rparr>)],
     queries := [(''faad49866e9498fc1719f5289e7a0269'', collision_text_A)],
     uuid_to_query := [(''uuid-'', collision_text_B), (''uuid-i'', collision_text_B)],
     num_usage_query_hash_collisions := 2,
     uuid_calls := 2, store_writes := 4\<rparr>"

text \<open>A read after the end of the window of \<open>example_config\<close>.\<close>

definition late_read :: ReadEvent where
  "late_read = (example_read ''p.d.t1'' ''j1'')\<lparr>timestamp := 90000\<rparr>"

text \<open>The two usage entries of \<open>dangling_store\<close>.\<close>

definition dangling_entry :: UsageStatistic where
  "dangling_entry =
    \<lparr>us_timestamp = 3600, us_resource = ''p.d.t0'', query_count = 1,
     query_freq = [(''00000000000000000000000000000000'', 1)],
     user_freq = [(''a@x.com'', 1)], column_freq = [(''c1'', 1)]\<rparr>"

definition resolvable_entry :: UsageStatistic where
  "resolvable_entry =
    \<lparr>us_timestamp = 3600, us_resource = ''p.d.t1'', query_count = 1,
     query_freq = [(''b1698e52a0f16203489454196a0c6307'', 1)],
     user_freq = [(''a@x.com'', 1)], column_freq = [(''c1'', 1)]\<rparr>"

section \<open>Facts used to evaluate the concrete runs\<close>

lemmas example_defs =
  example_env_def example_config_def example_read_def example_query_def
  read_audit_def query_audit_def known_md5_def collision_text_A_def collision_text_B_def
  long_prefix_def initial_state_def insert_query_def paired_insert_event_def late_read_def

lemmas long_defs = long_query_1_def long_query_2_def long_store_1_def long_store_2_def

lemmas prefix_collision_defs =
  short_env_def colliding_query_0_def colliding_query_1_def colliding_query_2_def
  prefix_collision_store_def

lemmas entry_defs = dangling_entry_def resolvable_entry_def dangling_store_def

lemmas run_defs = store_usage_event_def truthy_str_def Let_def report_error_def

lemmas query_defs =
  usage_statistics_def query_counts_def query_freqs_def user_freqs_def column_freqs_def
  ranked_queries_def row_number_def group_by_def bucket_of_def freq_of_def
  read_join_query_def read_join_column_def

section \<open>The operational deriver: destination and classification\<close>

text \<open>
  Claim C3, as amended. The destination resource of a correlated pair is the read event's
  resource whenever the pair holds a read event; the query event's declared destination
  table is taken only when the pair holds no read event, and there is no destination when
  the pair holds neither a read event nor a declared destination.
\<close>

theorem C3_destination_table:
  "get_destination_table event =
    (case read_event event of
       Some r \<Rightarrow> Some (resource r)
     | None \<Rightarrow> (case query_event event of None \<Rightarrow> None | Some q \<Rightarrow> destinationTable q))"
  by (simp add: get_destination_table_def split: option.splits)

theorem C3_destination_table_witness:
  "get_destination_table paired_insert_event = Some ''p.d.t1''
   \<and> get_destination_table (query_audit insert_query) = Some ''p.d.t2''"
  using C3_destination_table [of paired_insert_event]
    C3_destination_table [of "query_audit insert_query"]
  by (simp add: example_defs)

text \<open>
  Claim C3 as stated fails: the pair of a read on \<^verbatim>\<open>p.d.t1\<close> and an \<^verbatim>\<open>INSERT\<close> query that
  declares the destination \<^verbatim>\<open>p.d.t2\<close> gets the destination \<^verbatim>\<open>p.d.t1\<close>, the read's resource.
\<close>

theorem C3_destination_table_counterexample:
  "query_event paired_insert_event = Some insert_query
   \<and> destinationTable insert_query = Some ''p.d.t2''
   \<and> get_destination_table paired_insert_event = Some ''p.d.t1''
   \<and> get_destination_table paired_insert_event \<noteq> destinationTable insert_query"
  by (simp add: get_destination_table_def example_defs)

text \<open>
  Claim C4, as amended. A correlated pair that holds a read event and a query event of
  statement type \<^verbatim>\<open>INSERT\<close> is classified as \<^verbatim>\<open>CUSTOM\<close> with the raw statement type
  \<^verbatim>\<open>INSERT\<close> as its custom type, and takes timestamp and actor from the query event: it
  is neither the \<^verbatim>\<open>INSERT\<close> write category nor the \<^verbatim>\<open>CUSTOM_READ\<close> record of a read
  without a query.
\<close>

theorem C4_paired_insert_is_custom:
  assumes "read_event event = Some r" and "query_event event = Some q"
    and "statementType q = ''INSERT''"
  shows "fst (extract_operational_meta event stat) =
           Some \<lparr>statement_type = CUSTOM,
                 last_updated_timestamp = timestamp_millis (q_timestamp q),
                 meta_actor_email = q_actor_email q,
                 custom_type = Some ''INSERT''\<rparr>"
  using assms by (simp add: extract_operational_meta_def)

theorem C4_paired_insert_is_custom_witness:
  "fst (extract_operational_meta paired_insert_event Map.empty) =
     Some \<lparr>statement_type = CUSTOM, last_updated_timestamp = 4,
           meta_actor_email = ''a@x.com'', custom_type = Some ''INSERT''\<rparr>"
  using C4_paired_insert_is_custom [of paired_insert_event "example_read ''p.d.t1'' ''j1''"
      insert_query Map.empty]
  by (simp add: example_defs timestamp_millis_def)

text \<open>
  Claim C4 as stated fails: the read on its own is classified with the custom type
  \<^verbatim>\<open>CUSTOM_READ\<close> (the generic read record), the same read paired with its \<^verbatim>\<open>INSERT\<close>
  query with the custom type \<^verbatim>\<open>INSERT\<close>.
\<close>

theorem C4_paired_insert_counterexample:
  "read_event paired_insert_event = Some (example_read ''p.d.t1'' ''j1'')
   \<and> query_event paired_insert_event = Some insert_query
   \<and> statementType insert_query = ''INSERT''
   \<and> fst (extract_operational_meta (read_audit (example_read ''p.d.t1'' ''j1'')) Map.empty) =
       Some \<lparr>statement_type = CUSTOM, last_updated_timestamp = 4,
             meta_actor_email = ''a@x.com'', custom_type = Some ''CUSTOM_READ''\<rparr>
   \<and> fst (extract_operational_meta paired_insert_event Map.empty) =
       Some \<lparr>statement_type = CUSTOM, last_updated_timestamp = 4,
             meta_actor_email = ''a@x.com'', custom_type = Some ''INSERT''\<rparr>"
  by (simp add: extract_operational_meta_def example_defs timestamp_millis_def)

lemma write_category_not_custom:
  "map_of OPERATION_STATEMENT_TYPES s = Some w
   \<Longrightarrow> w \<in> {INSERT, UPDATE, DELETE, CREATE, DROP, ALTER}"
  by (auto simp: OPERATION_STATEMENT_TYPES_def split: if_splits)

text \<open>
  Claim C5. When the statement type of the pair's query event is a key of
  \<^verbatim>\<open>OPERATION_STATEMENT_TYPES\<close>, its value \<open>w\<close> is one of the write categories, and the
  pair is classified as \<open>w\<close> (with no custom type) exactly when no read event accompanies
  the query; with a read event the pair is classified as \<^verbatim>\<open>CUSTOM\<close>, carrying the raw
  statement type.
\<close>

theorem C5_read_suppresses_write_category:
  assumes "query_event event = Some q"
    and "map_of OPERATION_STATEMENT_TYPES (statementType q) = Some w"
  shows "w \<in> {INSERT, UPDATE, DELETE, CREATE, DROP, ALTER}
    \<and> fst (extract_operational_meta event stat) =
        Some (if read_event event = None
              then \<lparr>statement_type = w,
                    last_updated_timestamp = timestamp_millis (q_timestamp q),
                    meta_actor_email = q_actor_email q,
                    custom_type = None\<rparr>
              else \<lparr>statement_type = CUSTOM,
                    last_updated_timestamp = timestamp_millis (q_timestamp q),
                    meta_actor_email = q_actor_email q,
                    custom_type = Some (statementType q)\<rparr>)"
proof -
  have member: "statementType q \<in> set (map fst OPERATION_STATEMENT_TYPES)"
    using assms(2) by (metis map_of_eq_None_iff option.distinct(1) set_map)
  show ?thesis
    using assms member write_category_not_custom [OF assms(2)]
    by (simp add: extract_operational_meta_def)
qed

theorem C5_read_suppresses_write_category_witness:
  "fst (extract_operational_meta (query_audit insert_query) Map.empty) =
     Some \<lparr>statement_type = INSERT, last_updated_timestamp = 4,
           meta_actor_email = ''a@x.com'', custom_type = None\<rparr>
   \<and> fst (extract_operational_meta paired_insert_event Map.empty) =
     Some \<lparr>statement_type = CUSTOM, last_updated_timestamp = 4,
           meta_actor_email = ''a@x.com'', custom_type = Some ''INSERT''\<rparr>"
  using C5_read_suppresses_write_category
      [of "query_audit insert_query" insert_query INSERT Map.empty]
    C5_read_suppresses_write_category [of paired_insert_event insert_query INSERT Map.empty]
  by (simp add: example_defs timestamp_millis_def OPERATION_STATEMENT_TYPES_def)

section \<open>The store step and the ingestion loop\<close>

lemma store_column_accesses_frame:
  "read_events (snd (store_column_accesses E key fs st)) = read_events st
   \<and> query_events (snd (store_column_accesses E key fs st)) = query_events st
   \<and> queries (snd (store_column_accesses E key fs st)) = queries st
   \<and> uuid_to_query (snd (store_column_accesses E key fs st)) = uuid_to_query st
   \<and> num_usage_query_hash_collisions (snd (store_column_accesses E key fs st)) =
       num_usage_query_hash_collisions st
   \<and> num_usage_resources_dropped (snd (store_column_accesses E key fs st)) =
       num_usage_resources_dropped st
   \<and> dropped (snd (store_column_accesses E key fs st)) = dropped st
   \<and> usage_error_count (snd (store_column_accesses E key fs st)) = usage_error_count st
   \<and> warnings (snd (store_column_accesses E key fs st)) = warnings st"
  by (induction fs arbitrary: st) (simp_all add: Let_def)

text \<open>
  Claim C10. When the event's read lies outside the window \<open>[start_time, end_time)\<close>, the
  store step leaves the table of reads, the column accesses, the resource-drop counter,
  the list of dropped resources and the error counters as they were; and when the event
  carries no query event (an event made from a read), the step returns \<open>False\<close> with the
  whole state unchanged, so the ingestion loop counts nothing for it.
\<close>

theorem C10_read_outside_window_ignored:
  assumes "read_event event = Some r"
    and "\<not> (start_time cfg \<le> timestamp r \<and> timestamp r < end_time cfg)"
  shows "read_events (snd (store_usage_event E cfg table_refs event st)) = read_events st
    \<and> column_accesses (snd (store_usage_event E cfg table_refs event st)) = column_accesses st
    \<and> num_usage_resources_dropped (snd (store_usage_event E cfg table_refs event st)) =
        num_usage_resources_dropped st
    \<and> dropped (snd (store_usage_event E cfg table_refs event st)) = dropped st
    \<and> usage_error_count (snd (store_usage_event E cfg table_refs event st)) =
        usage_error_count st
    \<and> (query_event event = None \<longrightarrow>
          store_usage_event E cfg table_refs event st = (Inr False, st)
          \<and> ingest_events E cfg table_refs [event] n st = (n, st))"
  using assms
  by (auto simp: store_usage_event_def Let_def
      split: if_splits option.splits sum.splits prod.splits)

theorem C10_read_outside_window_ignored_witness:
  "read_event (read_audit late_read) = Some late_read
   \<and> \<not> (start_time example_config \<le> timestamp late_read
         \<and> timestamp late_read < end_time example_config)
   \<and> store_usage_event example_env example_config [''p.d.t1''] (read_audit late_read)
         initial_state = (Inr False, initial_state)
   \<and> ingest_events example_env example_config [''p.d.t1''] [read_audit late_read] 0
         initial_state = (0, initial_state)"
proof -
  have r: "read_event (read_audit late_read) = Some late_read"
    by (simp add: read_audit_def)
  have w: "\<not> (start_time example_config \<le> timestamp late_read
         \<and> timestamp late_read < end_time example_config)"
    by (simp add: example_defs)
  have q: "query_event (read_audit late_read) = None"
    by (simp add: read_audit_def)
  show ?thesis
    using C10_read_outside_window_ignored
      [OF r w, of example_env "[''p.d.t1'']" initial_state 0] r w q
    by simp
qed

section \<open>Deduplication of query texts\<close>

lemma store_usage_event_keeps_text:
  assumes "map_of (queries st) h = Some p"
  shows "map_of (queries (snd (store_usage_event E cfg table_refs event st))) h = Some p"
  using assms
  by (auto simp: store_usage_event_def Let_def store_column_accesses_frame update_conv'
      split: if_splits option.splits sum.splits prod.splits)

lemma ingest_events_keeps_text:
  assumes "map_of (queries st) h = Some p"
  shows "map_of (queries (snd (ingest_events E cfg table_refs evs n st))) h = Some p"
  using assms
proof (induction evs arbitrary: n st)
  case Nil
  then show ?case by simp
next
  case (Cons ev evs)
  have kept: "map_of (queries (snd (store_usage_event E cfg table_refs ev st))) h = Some p"
    using Cons.prems by (rule store_usage_event_keeps_text)
  show ?case
  proof (cases "store_usage_event E cfg table_refs ev st")
    case (Pair res st')
    with kept have st': "map_of (queries st') h = Some p" by simp
    show ?thesis
    proof (cases res)
      case (Inl e)
      have "map_of (queries (report_error ''store-event'' e st')) h = Some p"
        using st' by (simp add: report_error_def)
      then show ?thesis
        using Pair Inl Cons.IH by simp
    next
      case (Inr b)
      then show ?thesis
        using Pair st' Cons.IH by simp
    qed
  qed
qed

lemma store_query_known_text:
  assumes "read_event event = None" and "query_event event = Some q"
    and "truthy_str (job_name q)"
    and "\<not> write_fails E (store_writes st)" and "\<not> write_fails E (Suc (store_writes st))"
    and "map_of (queries st) (md5_hexdigest E (take (MAX_QUERY_LENGTH E) (query q))) = None
         \<or> map_of (queries st) (md5_hexdigest E (take (MAX_QUERY_LENGTH E) (query q))) =
             Some (take (MAX_QUERY_LENGTH E) (query q))"
  shows "store_usage_event E cfg table_refs event st =
    (Inr True,
     st\<lparr>store_writes := Suc (Suc (store_writes st)),
        queries := AList.update (md5_hexdigest E (take (MAX_QUERY_LENGTH E) (query q)))
                     (take (MAX_QUERY_LENGTH E) (query q)) (queries st),
        query_events := AList.update (the (job_name q))
                     (q\<lparr>query := md5_hexdigest E (take (MAX_QUERY_LENGTH E) (query q))\<rparr>)
                     (query_events st)\<rparr>)"
  using assms by (auto simp: store_usage_event_def Let_def)

text \<open>
  Claim C9, as amended. Take two query events (each with a job name, and no read) whose
  texts agree on their first \<open>MAX_QUERY_LENGTH\<close> characters; let the first be stored in a
  state whose entry for the digest of the common prefix is empty or holds that prefix, let
  any events be ingested in between, and let the table assignments of the two store steps
  not raise. Then both steps return \<open>True\<close>, both stored query events refer to the digest
  of the prefix, the table of texts holds the prefix under that digest, and neither step
  changes the collision counter or the surrogate map.
\<close>

theorem C9_truncated_texts_deduplicated:
  assumes ev1: "read_event ev1 = None" "query_event ev1 = Some q1" "truthy_str (job_name q1)"
    and ev2: "read_event ev2 = None" "query_event ev2 = Some q2" "truthy_str (job_name q2)"
    and same_prefix:
      "take (MAX_QUERY_LENGTH E) (query q1) = take (MAX_QUERY_LENGTH E) (query q2)"
    and slot: "map_of (queries st) (md5_hexdigest E (take (MAX_QUERY_LENGTH E) (query q1)))
        \<in> {None, Some (take (MAX_QUERY_LENGTH E) (query q1))}"
    and first: "store_usage_event E cfg table_refs ev1 st = (res1, st1)"
    and between: "ingest_events E cfg table_refs between n st1 = (n', st1')"
    and second: "store_usage_event E cfg table_refs ev2 st1' = (res2, st2)"
    and writes1: "\<not> write_fails E (store_writes st)" "\<not> write_fails E (Suc (store_writes st))"
    and writes2: "\<not> write_fails E (store_writes st1')"
      "\<not> write_fails E (Suc (store_writes st1'))"
  shows "res1 = Inr True \<and> res2 = Inr True
    \<and> map_of (query_events st1) (the (job_name q1)) =
        Some (q1\<lparr>query := md5_hexdigest E (take (MAX_QUERY_LENGTH E) (query q1))\<rparr>)
    \<and> map_of (query_events st2) (the (job_name q2)) =
        Some (q2\<lparr>query := md5_hexdigest E (take (MAX_QUERY_LENGTH E) (query q1))\<rparr>)
    \<and> map_of (queries st2) (md5_hexdigest E (take (MAX_QUERY_LENGTH E) (query q1))) =
        Some (take (MAX_QUERY_LENGTH E) (query q1))
    \<and> num_usage_query_hash_collisions st1 = num_usage_query_hash_collisions st
    \<and> num_usage_query_hash_collisions st2 = num_usage_query_hash_collisions st1'
    \<and> uuid_to_query st1 = uuid_to_query st
    \<and> uuid_to_query st2 = uuid_to_query st1'"
proof -
  let ?p = "take (MAX_QUERY_LENGTH E) (query q1)"
  let ?h = "md5_hexdigest E ?p"
  have slot': "map_of (queries st) ?h = None \<or> map_of (queries st) ?h = Some ?p"
    using slot by auto
  have one: "store_usage_event E cfg table_refs ev1 st =
    (Inr True,
     st\<lparr>store_writes := Suc (Suc (store_writes st)),
        queries := AList.update ?h ?p (queries st),
        query_events :=
          AList.update (the (job_name q1)) (q1\<lparr>query := ?h\<rparr>) (query_events st)\<rparr>)"
    using store_query_known_text [OF ev1 writes1 slot'] .
  have st1_text: "map_of (queries st1) ?h = Some ?p"
    using one first by (auto simp: update_conv')
  have "map_of (queries (snd (ingest_events E cfg table_refs between n st1))) ?h = Some ?p"
    using st1_text by (rule ingest_events_keeps_text)
  then have st1'_text: "map_of (queries st1') ?h = Some ?p"
    using between by simp
  have slot2:
    "map_of (queries st1') (md5_hexdigest E (take (MAX_QUERY_LENGTH E) (query q2))) = None
     \<or> map_of (queries st1') (md5_hexdigest E (take (MAX_QUERY_LENGTH E) (query q2))) =
         Some (take (MAX_QUERY_LENGTH E) (query q2))"
    using st1'_text same_prefix by simp
  have two: "store_usage_event E cfg table_refs ev2 st1' =
    (Inr True,
     st1'\<lparr>store_writes := Suc (Suc (store_writes st1')),
        queries := AList.update ?h ?p (queries st1'),
        query_events :=
          AList.update (the (job_name q2)) (q2\<lparr>query := ?h\<rparr>) (query_events st1')\<rparr>)"
    using store_query_known_text [OF ev2 writes2 slot2, of cfg table_refs] same_prefix
    by simp
  show ?thesis
    using one two first second by (auto simp: update_conv')
qed

lemma long_first:
  "store_usage_event example_env example_config [] (query_audit long_query_1) initial_state =
    (Inr True, long_store_1)"
  by (simp add: store_usage_event_def example_defs long_defs truthy_str_def Let_def)

lemma long_second:
  "store_usage_event example_env example_config [] (query_audit long_query_2) long_store_1 =
    (Inr True, long_store_2)"
  by (simp add: store_usage_event_def example_defs long_defs truthy_str_def Let_def)

theorem C9_truncated_texts_deduplicated_witness:
  "query long_query_1 \<noteq> query long_query_2
   \<and> take (MAX_QUERY_LENGTH example_env) (query long_query_1) = long_prefix
   \<and> take (MAX_QUERY_LENGTH example_env) (query long_query_2) = long_prefix
   \<and> store_usage_event example_env example_config [] (query_audit long_query_1) initial_state =
       (Inr True, long_store_1)
   \<and> store_usage_event example_env example_config [] (query_audit long_query_2) long_store_1 =
       (Inr True, long_store_2)
   \<and> map_of (query_events long_store_2) ''j1'' =
       Some (long_query_1\<lparr>query := ''b0cb64c0805f03e620fb767e53d125b3''\<rparr>)
   \<and> map_of (query_events long_store_2) ''j2'' =
       Some (long_query_2\<lparr>query := ''b0cb64c0805f03e620fb767e53d125b3''\<rparr>)
   \<and> map_of (queries long_store_2) ''b0cb64c0805f03e620fb767e53d125b3'' = Some long_prefix
   \<and> num_usage_query_hash_collisions long_store_2 = 0"
proof -
  have between:
    "ingest_events example_env example_config [] [] 0 long_store_1 = (0, long_store_1)"
    by simp
  have prefix1: "take (MAX_QUERY_LENGTH example_env) (query long_query_1) = long_prefix"
    and prefix2: "take (MAX_QUERY_LENGTH example_env) (query long_query_2) = long_prefix"
    by (simp_all add: example_defs long_defs)
  have digest: "md5_hexdigest example_env long_prefix = ''b0cb64c0805f03e620fb767e53d125b3''"
    by (simp add: example_defs)
  have "map_of (query_events long_store_2) (the (job_name long_query_2)) =
        Some (long_query_2\<lparr>query := md5_hexdigest example_env
          (take (MAX_QUERY_LENGTH example_env) (query long_query_1))\<rparr>)
    \<and> map_of (queries long_store_2) (md5_hexdigest example_env
          (take (MAX_QUERY_LENGTH example_env) (query long_query_1))) =
        Some (take (MAX_QUERY_LENGTH example_env) (query long_query_1))
    \<and> num_usage_query_hash_collisions long_store_2 =
        num_usage_query_hash_collisions long_store_1"
    using C9_truncated_texts_deduplicated
      [of "query_audit long_query_1" long_query_1 "query_audit long_query_2" long_query_2
        example_env initial_state example_config "[]" "Inr True" long_store_1 "[]" 0 0
        long_store_1 "Inr True" long_store_2, OF _ _ _ _ _ _ _ _ long_first between long_second]
    by (simp add: prefix1 prefix2 digest)
      (simp add: example_defs long_defs truthy_str_def)
  then show ?thesis
    using long_first long_second prefix1 prefix2 digest
    by (simp add: long_defs example_query_def initial_state_def)
qed

lemma prefix_collision_run:
  "ingest_events short_env example_config []
     [query_audit colliding_query_0, query_audit colliding_query_1,
      query_audit colliding_query_2] 0 initial_state = (3, prefix_collision_store)"
  by (simp add: prefix_collision_defs run_defs example_defs)

text \<open>
  Claim C9 as stated fails when a different text already holds the entry of the digest.
  With texts cut at 72 characters, a query with the first colliding text is stored; the
  two queries that follow agree on their first 72 characters, the second colliding text:
  each of them is handled as a collision, gets a surrogate key of its own, and the
  collision counter ends at 2.
\<close>

theorem C9_truncated_texts_counterexample:
  "query colliding_query_1 \<noteq> query colliding_query_2
   \<and> take (MAX_QUERY_LENGTH short_env) (query colliding_query_1) = collision_text_B
   \<and> take (MAX_QUERY_LENGTH short_env) (query colliding_query_2) = collision_text_B
   \<and> ingest_events short_env example_config []
       [query_audit colliding_query_0, query_audit colliding_query_1,
        query_audit colliding_query_2] 0 initial_state = (3, prefix_collision_store)
   \<and> map (\<lambda>(k, q). (k, query q)) (query_events prefix_collision_store) =
       [(''j0'', ''faad49866e9498fc1719f5289e7a0269''), (''j1'', ''uuid-''), (''j2'', ''uuid-i'')]
   \<and> queries prefix_collision_store =
       [(''faad49866e9498fc1719f5289e7a0269'', collision_text_A)]
   \<and> num_usage_query_hash_collisions prefix_collision_store = 2"
  using prefix_collision_run
  by (simp add: prefix_collision_defs example_defs)

section \<open>The stream of correlated pairs\<close>









section \<open>Emission: references that do not resolve\<close>

lemma resolve_all_known:
  "list_all (\<lambda>(h, n). map_of (queries st) h \<noteq> None) qf \<Longrightarrow>
   resolve_query_freq st qf =
     Inr (map (\<lambda>(h, n). (case map_of (uuid_to_query st) h of
                             None \<Rightarrow> the (map_of (queries st) h)
                           | Some t \<Rightarrow> t, n)) qf)"
  by (induction qf) (auto split: option.splits)

lemma resolve_unknown:
  "(h, n) \<in> set qf \<Longrightarrow> map_of (queries st) h = None \<Longrightarrow>
   \<exists>h'. h' \<in> fst ` set qf \<and> map_of (queries st) h' = None
        \<and> resolve_query_freq st qf = Inl (KeyError h')"
proof (induction qf)
  case Nil
  then show ?case by simp
next
  case (Cons a qf)
  obtain h0 n0 where a: "a = (h0, n0)" by (cases a)
  show ?case
  proof (cases "map_of (queries st) h0")
    case None
    then show ?thesis using a by auto
  next
    case (Some stored)
    then have "(h, n) \<in> set qf" using Cons.prems a by auto
    then obtain h' where "h' \<in> fst ` set qf" "map_of (queries st) h' = None"
      "resolve_query_freq st qf = Inl (KeyError h')"
      using Cons.IH Cons.prems(2) by blast
    then show ?thesis using a Some by auto
  qed
qed

lemma emit_error_count_mono:
  "usage_error_count st l \<le> usage_error_count (snd (emit_usage_workunits es st)) l"
proof (induction es arbitrary: st)
  case Nil
  then show ?case by simp
next
  case (Cons entry es)
  show ?case
  proof (cases "resolve_query_freq st (query_freq entry)")
    case (Inl e)
    have "usage_error_count st l \<le> usage_error_count (report_error ''statistics-workunit'' e st) l"
      by (simp add: report_error_def)
    also have "\<dots> \<le> usage_error_count
        (snd (emit_usage_workunits es (report_error ''statistics-workunit'' e st))) l"
      by (rule Cons.IH)
    finally show ?thesis using Inl by simp
  next
    case (Inr resolved)
    have "usage_error_count st l =
        usage_error_count (st\<lparr>num_usage_workunits_emitted := num_usage_workunits_emitted st + 1\<rparr>) l"
      by simp
    also have "\<dots> \<le> usage_error_count (snd (emit_usage_workunits es
        (st\<lparr>num_usage_workunits_emitted := num_usage_workunits_emitted st + 1\<rparr>))) l"
      by (rule Cons.IH)
    finally show ?thesis using Inr by (simp add: case_prod_unfold Let_def)
  qed
qed

text \<open>
  Claim C2, as amended. During emission every reference of a usage entry is looked up in
  the table of query texts. When all references of the entry are keys of the table, the
  entry's record is emitted with each reference replaced by the surrogate map's text when
  the map has the reference and by the table's text otherwise. When some reference is a key
  of neither the table nor the surrogate map, a lookup raises \<^verbatim>\<open>KeyError\<close>; the error
  is caught inside the emission loop: the entry yields no record, the label
  \<^verbatim>\<open>statistics-workunit\<close> is counted, and emission goes on with the entries that
  follow. Nothing is raised to the caller.
\<close>

theorem C2_unresolved_reference_absorbed:
  "(list_all (\<lambda>(h, n). map_of (queries st) h \<noteq> None) (query_freq entry) \<longrightarrow>
      emit_usage_workunits (entry # rest) st =
        (case emit_usage_workunits rest
                (st\<lparr>num_usage_workunits_emitted := num_usage_workunits_emitted st + 1\<rparr>) of
           (wus, st') \<Rightarrow>
             (entry\<lparr>query_freq :=
                      map (\<lambda>(h, n). (case map_of (uuid_to_query st) h of
                                        None \<Rightarrow> the (map_of (queries st) h)
                                      | Some t \<Rightarrow> t, n)) (query_freq entry)\<rparr> # wus, st')))
   \<and> ((h, n) \<in> set (query_freq entry) \<and> map_of (queries st) h = None
        \<and> map_of (uuid_to_query st) h = None \<longrightarrow>
      (\<exists>h'. h' \<in> fst ` set (query_freq entry) \<and> map_of (queries st) h' = None
         \<and> emit_usage_workunits (entry # rest) st =
             emit_usage_workunits rest (report_error ''statistics-workunit'' (KeyError h') st)
         \<and> usage_error_count st ''statistics-workunit'' <
             usage_error_count (snd (emit_usage_workunits (entry # rest) st))
               ''statistics-workunit''))"
proof (intro conjI impI)
  assume "list_all (\<lambda>(h, n). map_of (queries st) h \<noteq> None) (query_freq entry)"
  then show "emit_usage_workunits (entry # rest) st =
        (case emit_usage_workunits rest
                (st\<lparr>num_usage_workunits_emitted := num_usage_workunits_emitted st + 1\<rparr>) of
           (wus, st') \<Rightarrow>
             (entry\<lparr>query_freq :=
                      map (\<lambda>(h, n). (case map_of (uuid_to_query st) h of
                                        None \<Rightarrow> the (map_of (queries st) h)
                                      | Some t \<Rightarrow> t, n)) (query_freq entry)\<rparr> # wus, st'))"
    by (simp add: resolve_all_known)
next
  assume a: "(h, n) \<in> set (query_freq entry) \<and> map_of (queries st) h = None
        \<and> map_of (uuid_to_query st) h = None"
  then obtain h' where h': "h' \<in> fst ` set (query_freq entry)"
      "map_of (queries st) h' = None"
      "resolve_query_freq st (query_freq entry) = Inl (KeyError h')"
    using resolve_unknown [of h n "query_freq entry" st] by blast
  have step: "emit_usage_workunits (entry # rest) st =
      emit_usage_workunits rest (report_error ''statistics-workunit'' (KeyError h') st)"
    using h'(3) by simp
  have "usage_error_count st ''statistics-workunit'' <
      usage_error_count (report_error ''statistics-workunit'' (KeyError h') st)
        ''statistics-workunit''"
    by (simp add: report_error_def)
  also have "\<dots> \<le> usage_error_count
      (snd (emit_usage_workunits rest (report_error ''statistics-workunit'' (KeyError h') st)))
      ''statistics-workunit''"
    by (rule emit_error_count_mono)
  finally have "usage_error_count st ''statistics-workunit'' <
      usage_error_count (snd (emit_usage_workunits (entry # rest) st)) ''statistics-workunit''"
    using step by simp
  then show "\<exists>h'. h' \<in> fst ` set (query_freq entry) \<and> map_of (queries st) h' = None
         \<and> emit_usage_workunits (entry # rest) st =
             emit_usage_workunits rest (report_error ''statistics-workunit'' (KeyError h') st)
         \<and> usage_error_count st ''statistics-workunit'' <
             usage_error_count (snd (emit_usage_workunits (entry # rest) st))
               ''statistics-workunit''"
    using h' step by blast
qed

theorem C2_unresolved_reference_absorbed_witness:
  "fst (emit_usage_workunits [resolvable_entry] dangling_store) =
     [resolvable_entry\<lparr>query_freq := [(''SELECT 1'', 1)]\<rparr>]
   \<and> fst (emit_usage_workunits [dangling_entry, resolvable_entry] dangling_store) =
     [resolvable_entry\<lparr>query_freq := [(''SELECT 1'', 1)]\<rparr>]
   \<and> usage_error_count
       (snd (emit_usage_workunits [dangling_entry, resolvable_entry] dangling_store))
       ''statistics-workunit'' = 1"
  using C2_unresolved_reference_absorbed
      [of dangling_store resolvable_entry "[]" "''00000000000000000000000000000000''" 1]
    C2_unresolved_reference_absorbed
      [of dangling_store dangling_entry "[resolvable_entry]"
        "''00000000000000000000000000000000''" 1]
  by (simp add: entry_defs example_defs report_error_def)

lemma dangling_statistics:
  "usage_statistics example_env 2 dangling_store = [dangling_entry, resolvable_entry]"
  by (simp add: query_defs entry_defs example_defs)

text \<open>
  Claim C2 as stated fails: in a store whose query event \<^verbatim>\<open>j0\<close> refers to a text that
  neither the table nor the surrogate map holds, emission reports the \<^verbatim>\<open>KeyError\<close> as a
  warning, counts it, and goes on to emit the record of the next entry.
\<close>

theorem C2_unresolved_reference_counterexample:
  "map (\<lambda>u. (us_resource u, query_freq u)) (usage_statistics example_env 2 dangling_store) =
     [(''p.d.t0'', [(''00000000000000000000000000000000'', 1)]),
      (''p.d.t1'', [(''b1698e52a0f16203489454196a0c6307'', 1)])]
   \<and> map_of (queries dangling_store) ''00000000000000000000000000000000'' = None
   \<and> map_of (uuid_to_query dangling_store) ''00000000000000000000000000000000'' = None
   \<and> map (\<lambda>u. (us_resource u, query_freq u))
        (fst (generate_usage_workunits example_env example_config dangling_store)) =
     [(''p.d.t1'', [(''SELECT 1'', 1)])]
   \<and> usage_error_count (snd (generate_usage_workunits example_env example_config dangling_store))
        ''statistics-workunit'' = 1
   \<and> warnings (snd (generate_usage_workunits example_env example_config dangling_store)) =
     [(''usage-statistics-workunit'', KeyError ''00000000000000000000000000000000'')]"
proof -
  have "generate_usage_workunits example_env example_config dangling_store =
      emit_usage_workunits [dangling_entry, resolvable_entry] dangling_store"
    by (simp add: generate_usage_workunits_def example_config_def dangling_statistics)
  then show ?thesis
    by (simp add: dangling_statistics)
      (simp add: entry_defs initial_state_def report_error_def)
qed

section \<open>The top-N ranking\<close>

text \<open>
  The partition of the ranking is by timestamp, resource and query, which is also the key
  of the grouping: every partition holds one row, and every row gets rank 1. The filter
  \<^verbatim>\<open>rank <= top_n\<close> therefore keeps every row once \<open>top_n\<close> is at least 1.
\<close>

lemma group_by_keys: "map fst (group_by key rows) = remdups (map key rows)"
  by (simp add: group_by_def comp_def)

lemma filter_distinct_key:
  "distinct (map f xs) \<Longrightarrow> p \<in> f ` set xs \<Longrightarrow> \<exists>x. filter (\<lambda>r. f r = p) xs = [x]"
proof (induction xs)
  case Nil
  then show ?case by simp
next
  case (Cons a xs)
  show ?case
  proof (cases "f a = p")
    case True
    then have "p \<notin> f ` set xs" using Cons.prems(1) by auto
    then have "filter (\<lambda>r. f r = p) xs = []"
      by (auto simp: filter_empty_conv)
    then show ?thesis using True by simp
  next
    case False
    then have "p \<in> f ` set xs" using Cons.prems(2) by auto
    then show ?thesis using Cons False by simp
  qed
qed

lemma row_number_distinct_partitions:
  assumes "distinct (map part rows)" and "(r, k) \<in> set (row_number part ord rows)"
  shows "k = 1"
proof -
  from assms(2) obtain p rs where g: "(p, rs) \<in> set (group_by part rows)"
    and z: "(r, k) \<in> set (zip (sort_key ord rs) [1 ..< Suc (length rs)])"
    by (auto simp: row_number_def)
  from g have p: "p \<in> part ` set rows" and rs: "rs = filter (\<lambda>r. part r = p) rows"
    by (auto simp: group_by_def)
  from filter_distinct_key [OF assms(1) p] rs obtain x where "rs = [x]" by auto
  with z show ?thesis by simp
qed

lemma ranked_queries_rank_one:
  assumes "(row, k) \<in> set (ranked_queries E st)"
  shows "k = 1"
proof -
  let ?counted = "map (\<lambda>(k, rows). (k, length rows))
      (group_by (\<lambda>(r, q). (bucket_of E r, query (snd q))) (read_join_query st))"
  have "map (\<lambda>((b, qry), n). (b, qry)) ?counted =
      map fst (group_by (\<lambda>(r, q). (bucket_of E r, query (snd q))) (read_join_query st))"
    by (simp add: case_prod_unfold comp_def)
  then have d: "distinct (map (\<lambda>((b, qry), n). (b, qry)) ?counted)"
    by (simp add: group_by_keys)
  have "(row, k) \<in> set (row_number (\<lambda>((b, qry), n). (b, qry))
      (\<lambda>((b, qry), n). (- int n, qry)) ?counted)"
    using assms by (simp add: ranked_queries_def)
  then show ?thesis
    using row_number_distinct_partitions [OF d] by blast
qed

lemma top_n_has_no_effect:
  assumes "1 \<le> top_n"
  shows "query_freqs E top_n st = query_freqs E 1 st"
proof -
  have keep: "int (snd row) \<le> m" if "row \<in> set (ranked_queries E st)" and "1 \<le> m"
    for row and m :: int
  proof -
    have "snd row = 1"
      using ranked_queries_rank_one [of "fst row" "snd row" E st] that(1) by simp
    then show ?thesis using that(2) by simp
  qed
  have "filter (\<lambda>(((b, qry), n), rank). int rank \<le> m) (ranked_queries E st) =
      ranked_queries E st" if "1 \<le> m" for m :: int
    using keep [OF _ that] by (auto simp: filter_id_conv)
  from this [OF assms] this [of 1] show ?thesis
    by (simp add: query_freqs_def)
qed

lemma top_n_run:
  "ingest_events example_env example_config [''p.d.t1''] top_n_events 0 initial_state =
    (16, top_n_store)"
  by (simp add: top_n_events_def top_n_store_def run_defs example_defs numeral_nat)

lemma top_n_statistics:
  "map (\<lambda>u. (us_timestamp u, us_resource u, query_count u, query_freq u))
     (usage_statistics example_env 2 top_n_store) =
    [(3600, ''p.d.t1'', 13,
      [(''b1698e52a0f16203489454196a0c6307'', 5),
       (''fc1c7a0bdce312b20bc3780dd6d41aaa'', 5),
       (''122e5d851c9285ac41c5296a48e4c50d'', 3)])]"
  by (simp add: query_defs top_n_store_def example_defs)

lemma top_n_ranks:
  "map snd (ranked_queries example_env top_n_store) = [1, 1, 1]"
  by (simp add: query_defs top_n_store_def example_defs)

lemma top_n_statistics_full:
  "usage_statistics example_env 2 top_n_store =
    [\<lparr>us_timestamp = 3600, us_resource = ''p.d.t1'', query_count = 13,
      query_freq = [(''b1698e52a0f16203489454196a0c6307'', 5),
                    (''fc1c7a0bdce312b20bc3780dd6d41aaa'', 5),
                    (''122e5d851c9285ac41c5296a48e4c50d'', 3)],
      user_freq = [(''a@x.com'', 13)], column_freq = [(''c1'', 13)]\<rparr>]"
  by (simp add: query_defs top_n_store_def example_defs)

lemma top_n_emitted:
  "map query_freq (fst (generate_usage_workunits example_env example_config top_n_store)) =
    [[(''SELECT 1'', 5), (''SELECT 2'', 5), (''SELECT 3'', 3)]]"
proof -
  have "generate_usage_workunits example_env example_config top_n_store =
      emit_usage_workunits (usage_statistics example_env 2 top_n_store) top_n_store"
    by (simp add: generate_usage_workunits_def example_config_def)
  then show ?thesis
    by (simp add: top_n_statistics_full) (simp add: top_n_store_def initial_state_def)
qed

text \<open>
  Claim C1, evaluated on the code at the claim's own example. Three queries are read 5, 5
  and 3 times on one table in one bucket, and top-N is 2. Every row of the ranking has
  rank 1, so the filter \<^verbatim>\<open>rank <= 2\<close> keeps all three: the usage entry and the emitted
  record list three queries, not two.
\<close>

theorem C1_top_n_not_applied:
  "fst (ingest_events example_env example_config [''p.d.t1''] top_n_events 0 initial_state) = 16
   \<and> snd (ingest_events example_env example_config [''p.d.t1''] top_n_events 0 initial_state) =
       top_n_store
   \<and> include_top_n_queries example_config
   \<and> top_n_queries example_config = 2
   \<and> map snd (ranked_queries example_env top_n_store) = [1, 1, 1]
   \<and> map (\<lambda>u. (us_timestamp u, us_resource u, query_count u, query_freq u))
        (usage_statistics example_env 2 top_n_store) =
      [(3600, ''p.d.t1'', 13,
        [(''b1698e52a0f16203489454196a0c6307'', 5),
         (''fc1c7a0bdce312b20bc3780dd6d41aaa'', 5),
         (''122e5d851c9285ac41c5296a48e4c50d'', 3)])]
   \<and> map query_freq
        (fst (generate_usage_workunits example_env example_config top_n_store)) =
      [[(''SELECT 1'', 5), (''SELECT 2'', 5), (''SELECT 3'', 3)]]"
  using top_n_run top_n_statistics top_n_ranks top_n_emitted
  by (simp add: example_config_def)

section \<open>Hash collisions at emission\<close>

lemma collision_run:
  "ingest_events example_env example_config [''p.d.t1'', ''p.d.t2''] collision_events 0
     initial_state = (4, collision_store)"
  by (simp add: collision_events_def collision_store_def run_defs example_defs numeral_nat)

lemma collision_statistics:
  "usage_statistics example_env 2 collision_store =
    [\<lparr>us_timestamp = 3600, us_resource = ''p.d.t1'', query_count = 1,
      query_freq = [(''faad49866e9498fc1719f5289e7a0269'', 1)],
      user_freq = [(''a@x.com'', 1)], column_freq = [(''c1'', 1)]\<rparr>,
     \<lparr>us_timestamp = 3600, us_resource = ''p.d.t2'', query_count = 1,
      query_freq = [(''uuid-'', 1)],
      user_freq = [(''a@x.com'', 1)], column_freq = [(''c1'', 1)]\<rparr>]"
  by (simp add: query_defs collision_store_def example_defs)

lemma collision_emitted:
  "map (\<lambda>u. (us_resource u, query_freq u))
      (fst (generate_usage_workunits example_env example_config collision_store)) =
    [(''p.d.t1'', [(collision_text_A, 1)])]
   \<and> warnings (snd (generate_usage_workunits example_env example_config collision_store)) =
    [(''usage-statistics-workunit'', KeyError ''uuid-'')]"
proof -
  have "generate_usage_workunits example_env example_config collision_store =
      emit_usage_workunits (usage_statistics example_env 2 collision_store) collision_store"
    by (simp add: generate_usage_workunits_def example_config_def)
  then show ?thesis
    by (simp add: collision_statistics)
      (simp add: collision_store_def initial_state_def report_error_def)
qed

text \<open>
  Claim C6, evaluated on the code at two texts that collide under MD5. Ingestion does what
  the claim says: the second text gets a fresh surrogate key, the surrogate map holds it,
  the second query event refers to the key, the collision counter is 1 and the entry under
  the digest still holds the first text. Emission does not: the reference \<^verbatim>\<open>uuid-\<close> is
  looked up in the table of texts first, which raises \<^verbatim>\<open>KeyError\<close>, so the usage entry
  of the second query yields no record and its text is never resolved.
\<close>

theorem C6_collision_text_not_resolved:
  "collision_text_A \<noteq> collision_text_B
   \<and> md5_hexdigest example_env (take (MAX_QUERY_LENGTH example_env) collision_text_A) =
       md5_hexdigest example_env (take (MAX_QUERY_LENGTH example_env) collision_text_B)
   \<and> ingest_events example_env example_config [''p.d.t1'', ''p.d.t2''] collision_events 0
       initial_state = (4, collision_store)
   \<and> map_of (queries collision_store) ''faad49866e9498fc1719f5289e7a0269'' =
       Some collision_text_A
   \<and> map_of (uuid_to_query collision_store) ''uuid-'' = Some collision_text_B
   \<and> map_option query (map_of (query_events collision_store) ''j2'') = Some ''uuid-''
   \<and> num_usage_query_hash_collisions collision_store = 1
   \<and> resolve_query_freq collision_store [(''uuid-'', 1)] = Inl (KeyError ''uuid-'')
   \<and> map (\<lambda>u. (us_resource u, query_freq u))
        (fst (generate_usage_workunits example_env example_config collision_store)) =
      [(''p.d.t1'', [(collision_text_A, 1)])]
   \<and> warnings (snd (generate_usage_workunits example_env example_config collision_store)) =
      [(''usage-statistics-workunit'', KeyError ''uuid-'')]"
  using collision_run collision_emitted
  by (simp add: collision_store_def example_defs)

end
